theory Spec2Isabelle
  imports Complex_Main
begin

section \<open>JavaScript values used by the services\<close>

text \<open>
  An optional string (\<open>string | undefined\<close>, \<open>string | null\<close>) is a \<open>string option\<close>.
  JavaScript tests such a value by truthiness: \<open>undefined\<close>, \<open>null\<close> and the empty
  string are falsy, every other string is truthy.
\<close>

definition truthy :: "string option \<Rightarrow> bool" where
  "truthy v = (case v of None \<Rightarrow> False | Some s \<Rightarrow> s \<noteq> [])"


text \<open>\<open>process.env\<close>: a variable is absent or holds a string.\<close>

type_synonym env = "string \<Rightarrow> string option"

text \<open>The exceptions the modelled code throws.\<close>

datatype exception =
    Error string
  | TypeError string
  | BadRequestException string "string option" "string list option"

text \<open>\<open>Array.prototype.join\<close> on an array of strings.\<close>

fun join :: "string \<Rightarrow> string list \<Rightarrow> string" where
  "join sep [] = []"
| "join sep [x] = x"
| "join sep (x # y # ys) = x @ sep @ join sep (y # ys)"

text \<open>
  \<open>String.prototype.trim\<close>, for the ASCII white space characters (tab, line feed,
  vertical tab, form feed, carriage return, space).
\<close>

definition is_space :: "char \<Rightarrow> bool" where
  "is_space c = (c \<in> set [CHR 0x09, CHR 0x0A, CHR 0x0B, CHR 0x0C, CHR 0x0D, CHR 0x20])"

definition trim :: "string \<Rightarrow> string" where
  "trim s = rev (dropWhile is_space (rev (dropWhile is_space s)))"

text \<open>
  \<open>s.match(/<([^>]+)>/)\<close>: the first capture group of the leftmost match, or \<open>None\<close>
  when there is no match. At a \<open><\<close> the class \<open>[^>]+\<close> takes the longest run of
  characters other than \<open>>\<close>; the match succeeds there when that run is not empty and
  a \<open>>\<close> follows it.
\<close>

fun match_angle :: "string \<Rightarrow> string option" where
  "match_angle [] = None"
| "match_angle (c # cs) =
     (if c = CHR ''<'' \<and> takeWhile (\<lambda>x. x \<noteq> CHR ''>'') cs \<noteq> []
         \<and> dropWhile (\<lambda>x. x \<noteq> CHR ''>'') cs \<noteq> []
      then Some (takeWhile (\<lambda>x. x \<noteq> CHR ''>'') cs)
      else match_angle cs)"

section \<open>The email service\<close>

subsection \<open>Configuration and provider clients\<close>

text \<open>
  \<open>EmailConfigOptions\<close>: the sender address \<open>from\<close> and the optional \<open>senderName\<close>
  (the templates are not read by \<open>sendEmail\<close>).
\<close>

record EmailConfigOptions =
  from_addr :: string
  senderName :: "string option"

record MailerSend =
  apiKey :: string

record SESClient =
  region :: "string option"
  accessKeyId :: string
  secretAccessKey :: "string option"

record EmailService =
  emailConfig :: EmailConfigOptions
  sesClient :: "SESClient option"
  sendGridEnabled :: bool
  mailerSendClient :: "MailerSend option"

text \<open>
  The constructor reads the environment once. Its second result is the key handed to
  \<open>sgMail.setApiKey\<close> (a call on the SendGrid module, outside the service object).
\<close>

definition EmailService_constructor ::
  "env \<Rightarrow> EmailConfigOptions \<Rightarrow> EmailService \<times> string option" where
  "EmailService_constructor process_env options_email =
     (if truthy (process_env ''MAILERSEND_API_KEY'') then
        (\<lparr>emailConfig = options_email, sesClient = None, sendGridEnabled = False,
          mailerSendClient =
            (case process_env ''MAILERSEND_API_KEY'' of
               None \<Rightarrow> None | Some k \<Rightarrow> Some \<lparr>apiKey = k\<rparr>)\<rparr>, None)
      else if truthy (process_env ''SENDGRID_API_KEY'') then
        (\<lparr>emailConfig = options_email, sesClient = None, sendGridEnabled = True,
          mailerSendClient = None\<rparr>, process_env ''SENDGRID_API_KEY'')
      else if truthy (process_env ''AWS_SES_ACCESS_KEY_ID'') then
        (\<lparr>emailConfig = options_email,
          sesClient =
            (case process_env ''AWS_SES_ACCESS_KEY_ID'' of
               None \<Rightarrow> None
             | Some k \<Rightarrow> Some \<lparr>region = process_env ''AWS_SES_REGION'', accessKeyId = k,
                   secretAccessKey = process_env ''AWS_SES_SECRET_ACCESS_KEY''\<rparr>),
          sendGridEnabled = False, mailerSendClient = None\<rparr>, None)
      else
        (\<lparr>emailConfig = options_email, sesClient = None, sendGridEnabled = False,
          mailerSendClient = None\<rparr>, None))"

subsection \<open>Requests handed to the providers\<close>

datatype Sender = Sender string string

datatype Recipient = Recipient string string

record EmailParams =
  ep_from :: Sender
  ep_to :: "Recipient list"
  ep_replyTo :: Sender
  ep_subject :: string
  ep_html :: string

record SendGridMsg =
  sg_to :: "string list"
  sg_from :: string
  sg_subject :: string
  sg_html :: string
  sg_headers :: "(string \<times> string) list option"

record SESParams =
  ses_Source :: string
  ses_ToAddresses :: "string list"
  ses_Html_Charset :: string
  ses_Html_Data :: string
  ses_Subject_Charset :: string
  ses_Subject_Data :: string
  ses_Headers :: "(string \<times> string) list option"

text \<open>
  What a provider rejects with: the text the logger prints for the error object, and
  the body of \<open>error.response\<close> when the error has a response.
\<close>

datatype provider_error = ProviderError string "string option"

fun error_response :: "provider_error \<Rightarrow> string option" where
  "error_response (ProviderError text response) = response"

text \<open>
  The three transports are outside the repository; each is a function from the request
  to its outcome (\<open>Inl\<close> a rejection). SES resolves with the message id.
\<close>

record providers =
  mailersend_send :: "EmailParams \<Rightarrow> provider_error + unit"
  sendgrid_send :: "SendGridMsg \<Rightarrow> provider_error + unit"
  ses_send :: "SESParams \<Rightarrow> provider_error + string"

text \<open>What \<open>sendEmail\<close> does besides returning, in the order it happens.\<close>

datatype effect =
    LoggerLog string
  | LoggerWarn string
  | LoggerError string provider_error
  | LoggerErrorBody string
  | ConsoleLog string
  | ConsoleLogMsg string SendGridMsg
  | MailerSendCall EmailParams
  | SendGridCall SendGridMsg
  | SESCall SESParams

subsection \<open>sendEmail\<close>

definition formattedSender :: "EmailConfigOptions \<Rightarrow> string" where
  "formattedSender cfg =
     (case senderName cfg of
        None \<Rightarrow> from_addr cfg
      | Some n \<Rightarrow> if n \<noteq> [] then n @ '' <'' @ from_addr cfg @ ''>'' else from_addr cfg)"

definition unsubscribe_headers :: "EmailConfigOptions \<Rightarrow> string \<Rightarrow> (string \<times> string) list" where
  "unsubscribe_headers cfg url =
     [(''List-Unsubscribe'',
        ''<mailto:'' @ from_addr cfg @ ''?subject=unsubscribe>, <'' @ url @ ''>''),
      (''List-Unsubscribe-Post'', ''List-Unsubscribe=One-Click'')]"

definition mailersend_params ::
  "EmailConfigOptions \<Rightarrow> string list \<Rightarrow> string \<Rightarrow> string \<Rightarrow> EmailParams" where
  "mailersend_params cfg to subject body =
     (let fromEmail = (case match_angle (from_addr cfg) of
                         Some g \<Rightarrow> g | None \<Rightarrow> trim (from_addr cfg));
          sentFrom = Sender fromEmail
                       (case senderName cfg of
                          None \<Rightarrow> ''NailVision''
                        | Some n \<Rightarrow> if n \<noteq> [] then n else ''NailVision'');
          recipients = map (\<lambda>recipient.
                         Recipient recipient (takeWhile (\<lambda>x. x \<noteq> CHR ''@'') recipient)) to
      in \<lparr>ep_from = sentFrom, ep_to = recipients, ep_replyTo = sentFrom,
          ep_subject = subject, ep_html = body\<rparr>)"

definition sendgrid_msg ::
  "EmailConfigOptions \<Rightarrow> string list \<Rightarrow> string \<Rightarrow> string \<Rightarrow> string option \<Rightarrow> SendGridMsg" where
  "sendgrid_msg cfg to subject body unsubscribeUrl =
     \<lparr>sg_to = to, sg_from = formattedSender cfg, sg_subject = subject, sg_html = body,
      sg_headers = (case unsubscribeUrl of
                      None \<Rightarrow> None
                    | Some url \<Rightarrow> if url \<noteq> [] then Some (unsubscribe_headers cfg url) else None)\<rparr>"

definition ses_params ::
  "EmailConfigOptions \<Rightarrow> string list \<Rightarrow> string \<Rightarrow> string \<Rightarrow> string option \<Rightarrow> SESParams" where
  "ses_params cfg to subject body unsubscribeUrl =
     \<lparr>ses_Source = formattedSender cfg, ses_ToAddresses = to,
      ses_Html_Charset = ''UTF-8'', ses_Html_Data = body,
      ses_Subject_Charset = ''UTF-8'', ses_Subject_Data = subject,
      ses_Headers = (case unsubscribeUrl of
                       None \<Rightarrow> None
                     | Some url \<Rightarrow> if url \<noteq> [] then Some (unsubscribe_headers cfg url) else None)\<rparr>"

text \<open>
  \<open>sendEmail\<close> returns the effects it performed and its completion: \<open>Inr ()\<close> when the
  promise resolves, \<open>Inl\<close> the exception when it rejects. The branches are tried in
  the order of the source: MailerSend, SendGrid, the console fallback, SES.
\<close>

definition sendEmail ::
  "providers \<Rightarrow> EmailService \<Rightarrow> string list \<Rightarrow> string \<Rightarrow> string \<Rightarrow> string option
     \<Rightarrow> effect list \<times> (exception + unit)" where
  "sendEmail P this to subject body unsubscribeUrl =
     (case mailerSendClient this of
        Some client \<Rightarrow>
          (let emailParams = mailersend_params (emailConfig this) to subject body in
           case mailersend_send P emailParams of
             Inr u \<Rightarrow>
               ([MailerSendCall emailParams,
                 LoggerLog (''Email sent to '' @ join '','' to @ '' via MailerSend'')], Inr ())
           | Inl e \<Rightarrow>
               ([MailerSendCall emailParams,
                 LoggerError ''Failed to send email via MailerSend:'' e],
                Inl (Error ''Failed to send email via MailerSend'')))
      | None \<Rightarrow>
          if sendGridEnabled this then
            (let msg = sendgrid_msg (emailConfig this) to subject body unsubscribeUrl in
             case sendgrid_send P msg of
               Inr u \<Rightarrow>
                 ([ConsoleLogMsg ''Sending email via SendGrid'' msg, SendGridCall msg,
                   LoggerLog (''Email sent to '' @ join '','' to @ '' via SendGrid'')], Inr ())
             | Inl e \<Rightarrow>
                 ([ConsoleLogMsg ''Sending email via SendGrid'' msg, SendGridCall msg,
                   LoggerError ''Failed to send email via SendGrid:'' e]
                  @ (case error_response e of
                       None \<Rightarrow> [] | Some b \<Rightarrow> [LoggerErrorBody b]),
                  Inl (Error ''Failed to send email via SendGrid'')))
          else
            (case sesClient this of
               None \<Rightarrow>
                 ([LoggerWarn ''AWS SES and SendGrid not configured, email not sent.'',
                   ConsoleLog ([CHR 0x0A, CHR 0x0A] @ ''To: '' @ join '', '' to),
                   ConsoleLog (''Subject: '' @ subject),
                   ConsoleLog (body @ [CHR 0x0A, CHR 0x0A])], Inr ())
             | Some client \<Rightarrow>
                 (let params = ses_params (emailConfig this) to subject body unsubscribeUrl in
                  case ses_send P params of
                    Inr messageId \<Rightarrow>
                      ([SESCall params,
                        LoggerLog (''Email '' @ messageId @ '' sent to '' @ join '','' to)],
                       Inr ())
                  | Inl e \<Rightarrow>
                      ([SESCall params, LoggerError ''Failed to send email:'' e],
                       Inl (Error ''Failed to send email'')))))"

text \<open>
  Observations on the service and on a run of \<open>sendEmail\<close>: which providers are active
  (a MailerSend client exists, SendGrid is enabled, an SES client exists), and which
  providers a list of effects called.
\<close>

datatype provider_kind = MailerSendProvider | SendGridProvider | SESProvider

definition active_providers :: "EmailService \<Rightarrow> provider_kind list" where
  "active_providers this =
     (if mailerSendClient this \<noteq> None then [MailerSendProvider] else [])
     @ (if sendGridEnabled this then [SendGridProvider] else [])
     @ (if sesClient this \<noteq> None then [SESProvider] else [])"

fun called_provider :: "effect \<Rightarrow> provider_kind option" where
  "called_provider (MailerSendCall p) = Some MailerSendProvider"
| "called_provider (SendGridCall m) = Some SendGridProvider"
| "called_provider (SESCall p) = Some SESProvider"
| "called_provider e = None"

definition provider_calls :: "effect list \<Rightarrow> provider_kind list" where
  "provider_calls es = List.map_filter called_provider es"

section \<open>The Turnstile service and controller\<close>

subsection \<open>The siteverify call\<close>

text \<open>
  The body Cloudflare's siteverify endpoint answers with: the boolean \<open>success\<close>, and
  the optional \<open>error-codes\<close>, \<open>action\<close>, \<open>hostname\<close> and \<open>challenge_ts\<close> (a field
  that is absent reads as \<open>undefined\<close>, here \<open>None\<close>).
\<close>

record SiteverifyResponse =
  success :: bool
  error_codes :: "string list option"
  action :: "string option"
  hostname :: "string option"
  challenge_ts :: "string option"

text \<open>
  \<open>fetch\<close> followed by \<open>response.json()\<close>: the request fails, the body does not
  parse, or the body is returned. A body that parses is taken to be an object of the
  shape above, as the endpoint documents it.
\<close>

datatype fetch_result =
    FetchRejects string
  | JsonRejects string
  | JsonResolves SiteverifyResponse

type_synonym form_data = "(string \<times> string) list"

text \<open>
  A JavaScript number: a value or \<open>NaN\<close>. The only arithmetic on it below is an integer
  difference divided by 60000 and compared with 4; the quotient is kept exact (the
  comparison with 4 is the same after rounding to a double, since 240000 / 60000 is 4
  exactly and division rounds monotonically).
\<close>

datatype js_number = Number rat | NaN

fun js_gt :: "js_number \<Rightarrow> rat \<Rightarrow> bool" where
  "js_gt (Number x) y = (x > y)"
| "js_gt NaN y = False"

text \<open>
  The platform the service runs on: the HTTP call, the time \<open>new Date(s).getTime()\<close>
  gives for a string (\<open>None\<close> for an invalid date, whose time is \<open>NaN\<close>), and the
  clock \<open>new Date().getTime()\<close>, in milliseconds.
\<close>

record platform =
  fetch :: "form_data \<Rightarrow> fetch_result"
  Date_getTime :: "string \<Rightarrow> int option"
  now :: int

datatype turnstile_effect =
    ConsoleError string string
  | ConsoleWarnTokenAge js_number

record BaseTurnstileService =
  secretKey :: "string option"

definition internal_error :: SiteverifyResponse where
  "internal_error =
     \<lparr>success = False, error_codes = Some [''internal-error''], action = None,
      hostname = None, challenge_ts = None\<rparr>"

text \<open>
  \<open>FormData.append\<close> stores strings: an undefined secret is stored as the text
  \<open>undefined\<close>. The remote address is appended only when it is truthy.
\<close>

definition turnstile_form :: "BaseTurnstileService \<Rightarrow> string \<Rightarrow> string option \<Rightarrow> form_data" where
  "turnstile_form this token remoteip =
     [(''secret'', (case secretKey this of None \<Rightarrow> ''undefined'' | Some k \<Rightarrow> k)),
      (''response'', token)]
     @ (case remoteip of
          None \<Rightarrow> []
        | Some a \<Rightarrow> if a \<noteq> [] then [(''remoteip'', a)] else [])"

definition validateTurnstile ::
  "platform \<Rightarrow> BaseTurnstileService \<Rightarrow> string \<Rightarrow> string option
     \<Rightarrow> turnstile_effect list \<times> SiteverifyResponse" where
  "validateTurnstile pf this token remoteip =
     (case fetch pf (turnstile_form this token remoteip) of
        JsonResolves result \<Rightarrow> ([], result)
      | FetchRejects error \<Rightarrow>
          ([ConsoleError ''Turnstile validation error:'' error], internal_error)
      | JsonRejects error \<Rightarrow>
          ([ConsoleError ''Turnstile validation error:'' error], internal_error))"

subsection \<open>validateTurnstileEnhanced\<close>

text \<open>The object the validator returns; a property the object does not have is \<open>None\<close>.\<close>

record TurnstileResult =
  valid :: bool
  reason :: "string option"
  errors :: "string list option"
  expected :: "string option"
  received :: "string option"
  data :: "SiteverifyResponse option"
  tokenAge :: "js_number option"

definition ageMinutes :: "platform \<Rightarrow> SiteverifyResponse \<Rightarrow> js_number" where
  "ageMinutes pf validation =
     (case challenge_ts validation of
        None \<Rightarrow> NaN
      | Some ts \<Rightarrow>
          (case Date_getTime pf ts of
             None \<Rightarrow> NaN
           | Some challengeTime \<Rightarrow> Number (of_int (now pf - challengeTime) / (1000 * 60))))"

definition validateTurnstileEnhanced ::
  "platform \<Rightarrow> BaseTurnstileService \<Rightarrow> string \<Rightarrow> string option \<Rightarrow> string option
     \<Rightarrow> string option \<Rightarrow> turnstile_effect list \<times> TurnstileResult" where
  "validateTurnstileEnhanced pf this token remoteip expectedAction expectedHostname =
     (let (effects, validation) = validateTurnstile pf this token remoteip in
      if \<not> success validation then
        (effects,
         \<lparr>valid = False, reason = Some ''turnstile_failed'', errors = error_codes validation,
          expected = None, received = None, data = None, tokenAge = None\<rparr>)
      else if truthy expectedAction \<and> action validation \<noteq> expectedAction then
        (effects,
         \<lparr>valid = False, reason = Some ''action_mismatch'', errors = None,
          expected = expectedAction, received = action validation, data = None,
          tokenAge = None\<rparr>)
      else if truthy expectedHostname \<and> hostname validation \<noteq> expectedHostname then
        (effects,
         \<lparr>valid = False, reason = Some ''hostname_mismatch'', errors = None,
          expected = expectedHostname, received = hostname validation, data = None,
          tokenAge = None\<rparr>)
      else
        (effects
         @ (if js_gt (ageMinutes pf validation) 4
            then [ConsoleWarnTokenAge (ageMinutes pf validation)] else []),
         \<lparr>valid = True, reason = None, errors = None, expected = None, received = None,
          data = Some validation, tokenAge = Some (ageMinutes pf validation)\<rparr>))"

subsection \<open>The controller\<close>








section \<open>The token service\<close>

text \<open>
  Modelled from the spec: the token service (\<open>BaseAuthService\<close> and its refresh-token
  store) is not among the source files; the definitions of this section follow
  sections 3 and 4.1 of the specification. Token and family identifiers are drawn from
  counters of the store, which makes every new identifier fresh. An operation takes the
  current time as an argument.
\<close>

record RefreshTokenRecord =
  token_id :: nat
  user_id :: nat
  family_id :: nat
  issued_at :: int
  expires_at :: int
  revoked :: bool
  superseded_by :: "nat option"

record AccessToken =
  at_subject :: nat
  at_family :: nat
  at_issued_at :: int
  at_expiry :: int

record TokenStore =
  records :: "RefreshTokenRecord list"
  next_token :: nat
  next_family :: nat

record TokenConfig =
  access_ttl :: int
  refresh_ttl :: int

datatype AuthError = ReuseDetected | Expired | Unknown

definition empty_store :: TokenStore where
  "empty_store = \<lparr>records = [], next_token = 0, next_family = 0\<rparr>"

definition expired :: "int \<Rightarrow> RefreshTokenRecord \<Rightarrow> bool" where
  "expired t r = (expires_at r \<le> t)"

text \<open>Live: non-revoked, unexpired, unsuperseded.\<close>

definition live :: "int \<Rightarrow> RefreshTokenRecord \<Rightarrow> bool" where
  "live t r = (\<not> revoked r \<and> \<not> expired t r \<and> superseded_by r = None)"

definition lookup :: "TokenStore \<Rightarrow> nat \<Rightarrow> RefreshTokenRecord option" where
  "lookup st tid = find (\<lambda>r. token_id r = tid) (records st)"

definition access_token :: "TokenConfig \<Rightarrow> int \<Rightarrow> nat \<Rightarrow> nat \<Rightarrow> AccessToken" where
  "access_token cfg t uid fam =
     \<lparr>at_subject = uid, at_family = fam, at_issued_at = t, at_expiry = t + access_ttl cfg\<rparr>"

definition new_record :: "TokenConfig \<Rightarrow> int \<Rightarrow> nat \<Rightarrow> nat \<Rightarrow> nat \<Rightarrow> RefreshTokenRecord" where
  "new_record cfg t tid uid fam =
     \<lparr>token_id = tid, user_id = uid, family_id = fam, issued_at = t,
      expires_at = t + refresh_ttl cfg, revoked = False, superseded_by = None\<rparr>"

text \<open>\<open>issue(userId)\<close>: a new family with one live record, and an access token for it.\<close>

definition issue ::
  "TokenConfig \<Rightarrow> TokenStore \<Rightarrow> int \<Rightarrow> nat \<Rightarrow> TokenStore \<times> (AccessToken \<times> nat)" where
  "issue cfg st t uid =
     (st\<lparr>records := records st @ [new_record cfg t (next_token st) uid (next_family st)],
         next_token := Suc (next_token st), next_family := Suc (next_family st)\<rparr>,
      (access_token cfg t uid (next_family st), next_token st))"

definition revoke_family :: "TokenStore \<Rightarrow> nat \<Rightarrow> TokenStore" where
  "revoke_family st fam =
     st\<lparr>records := map (\<lambda>r. if family_id r = fam then r\<lparr>revoked := True\<rparr> else r)
                       (records st)\<rparr>"

definition revoke_user :: "TokenStore \<Rightarrow> nat \<Rightarrow> TokenStore" where
  "revoke_user st uid =
     st\<lparr>records := map (\<lambda>r. if user_id r = uid then r\<lparr>revoked := True\<rparr> else r)
                       (records st)\<rparr>"

text \<open>\<open>revoke(userIdOrFamilyId)\<close>: marks all matching records revoked.\<close>

datatype revoke_target = ByUser nat | ByFamily nat

fun revoke :: "TokenStore \<Rightarrow> revoke_target \<Rightarrow> TokenStore" where
  "revoke st (ByUser uid) = revoke_user st uid"
| "revoke st (ByFamily fam) = revoke_family st fam"

text \<open>
  Step 5 of \<open>refresh\<close>, one update of the store: the presented record is marked
  superseded and a new live record of the same family is created.
\<close>

definition supersede_and_create ::
  "TokenConfig \<Rightarrow> TokenStore \<Rightarrow> int \<Rightarrow> RefreshTokenRecord \<Rightarrow> TokenStore" where
  "supersede_and_create cfg st t r =
     st\<lparr>records :=
          map (\<lambda>x. if token_id x = token_id r
                   then x\<lparr>superseded_by := Some (next_token st)\<rparr> else x) (records st)
          @ [new_record cfg t (next_token st) (user_id r) (family_id r)],
        next_token := Suc (next_token st)\<rparr>"

text \<open>\<open>refresh(refreshToken)\<close>, the five steps of section 4.1 in their order.\<close>

definition refresh ::
  "TokenConfig \<Rightarrow> TokenStore \<Rightarrow> int \<Rightarrow> nat \<Rightarrow> TokenStore \<times> (AuthError + AccessToken \<times> nat)" where
  "refresh cfg st t tid =
     (case lookup st tid of
        None \<Rightarrow> (st, Inl Unknown)
      | Some r \<Rightarrow>
          if expired t r then (st, Inl Expired)
          else if revoked r \<or> superseded_by r \<noteq> None then
            (revoke_family st (family_id r), Inl ReuseDetected)
          else
            (supersede_and_create cfg st t r,
             Inr (access_token cfg t (user_id r) (family_id r), next_token st)))"

text \<open>The calls a client can make on the service, and the store after a sequence of them.\<close>

datatype token_op = Issue int nat | Refresh int nat | Revoke revoke_target

fun exec :: "TokenConfig \<Rightarrow> TokenStore \<Rightarrow> token_op \<Rightarrow> TokenStore" where
  "exec cfg st (Issue t uid) = fst (issue cfg st t uid)"
| "exec cfg st (Refresh t tid) = fst (refresh cfg st t tid)"
| "exec cfg st (Revoke target) = revoke st target"

definition run :: "TokenConfig \<Rightarrow> TokenStore \<Rightarrow> token_op list \<Rightarrow> TokenStore" where
  "run cfg st ops = foldl (exec cfg) st ops"

text \<open>The live records of a family.\<close>

definition live_in_family :: "TokenStore \<Rightarrow> int \<Rightarrow> nat \<Rightarrow> RefreshTokenRecord list" where
  "live_in_family st t fam = filter (\<lambda>r. family_id r = fam \<and> live t r) (records st)"

section \<open>The ownership policy engine\<close>

text \<open>
  Modelled from the spec: the ownership policy engine (\<open>OwneableEntityService\<close>) is not
  among the source files, which only show a subclass overriding it; the definitions of
  this section follow section 4.3 of the specification. The default capability is
  owner-only; each capability has an override point, empty unless an override is
  installed. The viewer is optional.
\<close>

record Viewer =
  viewer_id :: nat

record OwnableResource =
  resource_id :: nat
  owner :: nat

type_synonym capability = "OwnableResource \<Rightarrow> Viewer option \<Rightarrow> bool"

record OwnershipPolicy =
  canView_override :: "capability option"
  canEdit_override :: "capability option"
  canDelete_override :: "capability option"

definition no_override :: OwnershipPolicy where
  "no_override = \<lparr>canView_override = None, canEdit_override = None, canDelete_override = None\<rparr>"

definition owner_only :: capability where
  "owner_only resource viewer =
     (case viewer of None \<Rightarrow> False | Some v \<Rightarrow> viewer_id v = owner resource)"

definition canView :: "OwnershipPolicy \<Rightarrow> capability" where
  "canView policy resource viewer =
     (case canView_override policy of
        None \<Rightarrow> owner_only resource viewer | Some f \<Rightarrow> f resource viewer)"

definition canEdit :: "OwnershipPolicy \<Rightarrow> capability" where
  "canEdit policy resource viewer =
     (case canEdit_override policy of
        None \<Rightarrow> owner_only resource viewer | Some f \<Rightarrow> f resource viewer)"

definition canDelete :: "OwnershipPolicy \<Rightarrow> capability" where
  "canDelete policy resource viewer =
     (case canDelete_override policy of
        None \<Rightarrow> owner_only resource viewer | Some f \<Rightarrow> f resource viewer)"

section \<open>Concrete inputs\<close>

text \<open>
  The service objects, environments and provider behaviours at which the theorems
  below are evaluated.
\<close>

definition constructed :: "env \<Rightarrow> EmailConfigOptions \<Rightarrow> EmailService" where
  "constructed process_env options_email = fst (EmailService_constructor process_env options_email)"

definition env_of :: "(string \<times> string) list \<Rightarrow> env" where
  "env_of kvs = map_of kvs"

definition test_config :: EmailConfigOptions where
  "test_config = \<lparr>from_addr = ''test@example.com'', senderName = None\<rparr>"

text \<open>Providers that reject every request.\<close>

definition rejecting :: providers where
  "rejecting =
     \<lparr>mailersend_send = (\<lambda>p. Inl (ProviderError ''422 Unprocessable Entity'' None)),
      sendgrid_send = (\<lambda>m. Inl (ProviderError ''403 Forbidden'' (Some ''forbidden''))),
      ses_send = (\<lambda>p. Inl (ProviderError ''MessageRejected'' None))\<rparr>"

text \<open>
  A platform whose siteverify call answers with a given body, whose clock reads
  1700000600000 and which reads every challenge timestamp as a given time.
\<close>

definition answering :: "SiteverifyResponse \<Rightarrow> int \<Rightarrow> platform" where
  "answering body challengeTime =
     \<lparr>fetch = (\<lambda>form. JsonResolves body), Date_getTime = (\<lambda>ts. Some challengeTime),
      now = 1700000600000\<rparr>"

text \<open>A platform whose siteverify call fails on the network.\<close>

definition unreachable :: platform where
  "unreachable =
     \<lparr>fetch = (\<lambda>form. FetchRejects ''fetch failed''), Date_getTime = (\<lambda>ts. None),
      now = 1700000600000\<rparr>"

definition test_service :: BaseTurnstileService where
  "test_service = \<lparr>secretKey = Some ''secret''\<rparr>"

definition passed_challenge :: "string \<Rightarrow> string \<Rightarrow> SiteverifyResponse" where
  "passed_challenge a h =
     \<lparr>success = True, error_codes = None, action = Some a, hostname = Some h,
      challenge_ts = Some ''2023-11-14T22:13:20.000Z''\<rparr>"



definition failed_challenge :: SiteverifyResponse where
  "failed_challenge =
     \<lparr>success = False, error_codes = Some [''invalid-input-response''], action = None,
      hostname = None, challenge_ts = None\<rparr>"


section \<open>Observations on the token store\<close>

text \<open>
  A record is open when it is neither revoked nor superseded; a live record is an open
  record that has not expired. The store is well formed when every family identifier in
  use is below the counter and no family has two open records.
\<close>

definition open_record :: "RefreshTokenRecord \<Rightarrow> bool" where
  "open_record r = (\<not> revoked r \<and> superseded_by r = None)"

definition open_in_family :: "TokenStore \<Rightarrow> nat \<Rightarrow> RefreshTokenRecord list" where
  "open_in_family st fam = filter (\<lambda>r. family_id r = fam \<and> open_record r) (records st)"

definition families_known :: "TokenStore \<Rightarrow> bool" where
  "families_known st = list_all (\<lambda>r. family_id r < next_family st) (records st)"

definition well_formed :: "TokenStore \<Rightarrow> bool" where
  "well_formed st = (families_known st \<and> (\<forall>fam. length (open_in_family st fam) \<le> 1))"

text \<open>
  A configuration whose refresh tokens live ten time units, and the store after one
  login at time 0 (token 0, family 0) and one refresh of token 0 at time 5 (token 1).
\<close>

definition short_lived :: TokenConfig where
  "short_lived = \<lparr>access_ttl = 5, refresh_ttl = 10\<rparr>"

definition rotated_once :: "token_op list" where
  "rotated_once = [Issue 0 7, Refresh 5 0]"

section \<open>The email service: the requests of the repository's tests\<close>

text \<open>
  The requests the model builds at the inputs of \<open>email.service.spec.ts\<close>: the sender
  extracted from a \<open>Name <email>\<close> address for MailerSend, the SendGrid message
  without and with an unsubscribe URL.
\<close>

lemma mailersend_sender_of_formatted_address:
  "ep_from (mailersend_params
              \<lparr>from_addr = ''Test Sender <test@example.com>'', senderName = None\<rparr>
              [''recipient@example.com''] ''Test Subject'' ''<p>Test Body</p>'')
     = Sender ''test@example.com'' ''NailVision''"
  by (simp add: mailersend_params_def Let_def)

lemma sendgrid_message_of_test:
  "sendgrid_msg test_config [''recipient@example.com''] ''Test Subject'' ''<p>Test Body</p>''
     None
     = \<lparr>sg_to = [''recipient@example.com''], sg_from = ''test@example.com'',
        sg_subject = ''Test Subject'', sg_html = ''<p>Test Body</p>'', sg_headers = None\<rparr>"
  by (simp add: sendgrid_msg_def formattedSender_def test_config_def)

lemma sendgrid_unsubscribe_headers_of_test:
  "sg_headers (sendgrid_msg test_config [''recipient@example.com''] ''Test Subject''
                 ''<p>Test Body</p>'' (Some ''https://example.com/unsubscribe''))
     = Some [(''List-Unsubscribe'',
              ''<mailto:test@example.com?subject=unsubscribe>, <https://example.com/unsubscribe>''),
             (''List-Unsubscribe-Post'', ''List-Unsubscribe=One-Click'')]"
  by (simp add: sendgrid_msg_def unsubscribe_headers_def test_config_def)

section \<open>The email service: provider selection and delivery failures\<close>

text \<open>
  C1, as the code has it. When the selected provider rejects the request, \<open>sendEmail\<close>
  logs the failure at error level and then throws: its completion is \<open>Inl (Error _)\<close>
  with the provider's message (\<open>Failed to send email via MailerSend\<close>,
  \<open>Failed to send email via SendGrid\<close>, \<open>Failed to send email\<close> for SES). The
  effects are the provider call followed by the error log entries, nothing else.
\<close>

theorem sendEmail_provider_failure_raises:
  "(mailerSendClient this \<noteq> None
      \<and> mailersend_send P (mailersend_params (emailConfig this) to subject body) = Inl e
    \<longrightarrow> sendEmail P this to subject body unsubscribeUrl =
          ([MailerSendCall (mailersend_params (emailConfig this) to subject body),
            LoggerError ''Failed to send email via MailerSend:'' e],
           Inl (Error ''Failed to send email via MailerSend'')))
   \<and> (mailerSendClient this = None \<and> sendGridEnabled this
      \<and> sendgrid_send P (sendgrid_msg (emailConfig this) to subject body unsubscribeUrl) = Inl e
    \<longrightarrow> sendEmail P this to subject body unsubscribeUrl =
          ([ConsoleLogMsg ''Sending email via SendGrid''
              (sendgrid_msg (emailConfig this) to subject body unsubscribeUrl),
            SendGridCall (sendgrid_msg (emailConfig this) to subject body unsubscribeUrl),
            LoggerError ''Failed to send email via SendGrid:'' e]
           @ (case error_response e of None \<Rightarrow> [] | Some b \<Rightarrow> [LoggerErrorBody b]),
           Inl (Error ''Failed to send email via SendGrid'')))
   \<and> (mailerSendClient this = None \<and> \<not> sendGridEnabled this \<and> sesClient this \<noteq> None
      \<and> ses_send P (ses_params (emailConfig this) to subject body unsubscribeUrl) = Inl e
    \<longrightarrow> sendEmail P this to subject body unsubscribeUrl =
          ([SESCall (ses_params (emailConfig this) to subject body unsubscribeUrl),
            LoggerError ''Failed to send email:'' e],
           Inl (Error ''Failed to send email'')))"
  by (auto simp: sendEmail_def Let_def split: option.splits)

text \<open>
  The three cases at the services the constructor builds from an environment holding
  one key each, with providers that reject.
\<close>

theorem sendEmail_provider_failure_raises_witness:
  "snd (sendEmail rejecting
          (constructed (env_of [(''MAILERSEND_API_KEY'', ''mlsn.test-key'')]) test_config)
          [''recipient@example.com''] ''Test Subject'' ''<p>Test Body</p>'' None)
     = Inl (Error ''Failed to send email via MailerSend'')
   \<and> snd (sendEmail rejecting
          (constructed (env_of [(''SENDGRID_API_KEY'', ''SG.test-key'')]) test_config)
          [''recipient@example.com''] ''Test Subject'' ''<p>Test Body</p>'' None)
     = Inl (Error ''Failed to send email via SendGrid'')
   \<and> snd (sendEmail rejecting
          (constructed (env_of [(''AWS_SES_ACCESS_KEY_ID'', ''test-access-key'')]) test_config)
          [''recipient@example.com''] ''Test Subject'' ''<p>Test Body</p>'' None)
     = Inl (Error ''Failed to send email'')"
proof -
  let ?to = "[''recipient@example.com'']"
  let ?ms = "constructed (env_of [(''MAILERSEND_API_KEY'', ''mlsn.test-key'')]) test_config"
  let ?sg = "constructed (env_of [(''SENDGRID_API_KEY'', ''SG.test-key'')]) test_config"
  let ?ses = "constructed (env_of [(''AWS_SES_ACCESS_KEY_ID'', ''test-access-key'')]) test_config"
  have ms: "mailerSendClient ?ms \<noteq> None"
    by (simp add: constructed_def EmailService_constructor_def env_of_def truthy_def)
  have sg: "mailerSendClient ?sg = None \<and> sendGridEnabled ?sg"
    by (simp add: constructed_def EmailService_constructor_def env_of_def truthy_def)
  have ses: "mailerSendClient ?ses = None \<and> \<not> sendGridEnabled ?ses \<and> sesClient ?ses \<noteq> None"
    by (simp add: constructed_def EmailService_constructor_def env_of_def truthy_def)
  have r1: "mailersend_send rejecting
              (mailersend_params (emailConfig ?ms) ?to ''Test Subject'' ''<p>Test Body</p>'')
              = Inl (ProviderError ''422 Unprocessable Entity'' None)"
    by (simp add: rejecting_def)
  have r2: "sendgrid_send rejecting
              (sendgrid_msg (emailConfig ?sg) ?to ''Test Subject'' ''<p>Test Body</p>'' None)
              = Inl (ProviderError ''403 Forbidden'' (Some ''forbidden''))"
    by (simp add: rejecting_def)
  have r3: "ses_send rejecting
              (ses_params (emailConfig ?ses) ?to ''Test Subject'' ''<p>Test Body</p>'' None)
              = Inl (ProviderError ''MessageRejected'' None)"
    by (simp add: rejecting_def)
  from ms r1 sg r2 ses r3 show ?thesis
    using sendEmail_provider_failure_raises
            [of ?ms rejecting ?to "''Test Subject''" "''<p>Test Body</p>''"
                "ProviderError ''422 Unprocessable Entity'' None" None]
          sendEmail_provider_failure_raises
            [of ?sg rejecting ?to "''Test Subject''" "''<p>Test Body</p>''"
                "ProviderError ''403 Forbidden'' (Some ''forbidden'')" None]
          sendEmail_provider_failure_raises
            [of ?ses rejecting ?to "''Test Subject''" "''<p>Test Body</p>''"
                "ProviderError ''MessageRejected'' None" None]
    by simp
qed

text \<open>
  C1 as the specification states it fails: with a MailerSend client whose \<open>send\<close>
  rejects, \<open>sendEmail\<close> does not return an outcome, it throws
  \<open>Error('Failed to send email via MailerSend')\<close> after logging.
\<close>

theorem sendEmail_failure_not_fatal_counterexample:
  "mailersend_send rejecting
      (mailersend_params test_config [''recipient@example.com''] ''Test Subject''
         ''<p>Test Body</p>'')
     = Inl (ProviderError ''422 Unprocessable Entity'' None)
   \<and> sendEmail rejecting
        \<lparr>emailConfig = test_config, sesClient = None, sendGridEnabled = False,
          mailerSendClient = Some \<lparr>apiKey = ''mlsn.test-key''\<rparr>\<rparr>
        [''recipient@example.com''] ''Test Subject'' ''<p>Test Body</p>'' None
     = ([MailerSendCall
           \<lparr>ep_from = Sender ''test@example.com'' ''NailVision'',
            ep_to = [Recipient ''recipient@example.com'' ''recipient''],
            ep_replyTo = Sender ''test@example.com'' ''NailVision'',
            ep_subject = ''Test Subject'', ep_html = ''<p>Test Body</p>''\<rparr>,
         LoggerError ''Failed to send email via MailerSend:''
           (ProviderError ''422 Unprocessable Entity'' None)],
        Inl (Error ''Failed to send email via MailerSend''))"
  by (simp add: sendEmail_def rejecting_def mailersend_params_def test_config_def trim_def
        is_space_def Let_def)

text \<open>
  C2. The constructor selects the provider from the environment, in the order
  MailerSend, SendGrid, SES, a key counting as set when its value is truthy (present
  and not empty, the test the source makes): with \<open>MAILERSEND_API_KEY\<close> set a
  MailerSend client holding that key is created and nothing else is active; otherwise
  with \<open>SENDGRID_API_KEY\<close> set SendGrid alone is enabled (its key handed to the SendGrid
  module); otherwise with \<open>AWS_SES_ACCESS_KEY_ID\<close> set an SES client alone is created;
  with none of them set nothing is active. So at most one provider is active, exactly
  one when any of the three keys is set, and every \<open>sendEmail\<close> on the constructed
  service calls the active provider and no other.
\<close>

theorem constructor_selects_provider:
  "(truthy (e ''MAILERSEND_API_KEY'') \<longrightarrow>
      active_providers (constructed e c) = [MailerSendProvider]
      \<and> mailerSendClient (constructed e c)
          = map_option (\<lambda>k. \<lparr>apiKey = k\<rparr>) (e ''MAILERSEND_API_KEY''))
   \<and> (\<not> truthy (e ''MAILERSEND_API_KEY'') \<and> truthy (e ''SENDGRID_API_KEY'') \<longrightarrow>
      active_providers (constructed e c) = [SendGridProvider]
      \<and> snd (EmailService_constructor e c) = e ''SENDGRID_API_KEY'')
   \<and> (\<not> truthy (e ''MAILERSEND_API_KEY'') \<and> \<not> truthy (e ''SENDGRID_API_KEY'')
        \<and> truthy (e ''AWS_SES_ACCESS_KEY_ID'') \<longrightarrow>
      active_providers (constructed e c) = [SESProvider])
   \<and> (\<not> truthy (e ''MAILERSEND_API_KEY'') \<and> \<not> truthy (e ''SENDGRID_API_KEY'')
        \<and> \<not> truthy (e ''AWS_SES_ACCESS_KEY_ID'') \<longrightarrow>
      active_providers (constructed e c) = [])
   \<and> length (active_providers (constructed e c)) \<le> 1
   \<and> provider_calls (fst (sendEmail P (constructed e c) to subject body unsubscribeUrl))
        = active_providers (constructed e c)"
  by (auto simp: constructed_def EmailService_constructor_def active_providers_def truthy_def
        sendEmail_def provider_calls_def Let_def
      split: option.splits sum.splits)

theorem constructor_selects_provider_witness:
  "active_providers
     (constructed (env_of [(''MAILERSEND_API_KEY'', ''mlsn.test-key''),
                           (''SENDGRID_API_KEY'', ''SG.test-key''),
                           (''AWS_SES_ACCESS_KEY_ID'', ''test-access-key'')]) test_config)
     = [MailerSendProvider]
   \<and> active_providers
       (constructed (env_of [(''SENDGRID_API_KEY'', ''SG.test-key''),
                             (''AWS_SES_ACCESS_KEY_ID'', ''test-access-key'')]) test_config)
     = [SendGridProvider]
   \<and> active_providers
       (constructed (env_of [(''AWS_SES_ACCESS_KEY_ID'', ''test-access-key'')]) test_config)
     = [SESProvider]
   \<and> active_providers (constructed (env_of []) test_config) = []"
  using constructor_selects_provider
          [of "env_of [(''MAILERSEND_API_KEY'', ''mlsn.test-key''),
                       (''SENDGRID_API_KEY'', ''SG.test-key''),
                       (''AWS_SES_ACCESS_KEY_ID'', ''test-access-key'')]" test_config]
        constructor_selects_provider
          [of "env_of [(''SENDGRID_API_KEY'', ''SG.test-key''),
                       (''AWS_SES_ACCESS_KEY_ID'', ''test-access-key'')]" test_config]
        constructor_selects_provider
          [of "env_of [(''AWS_SES_ACCESS_KEY_ID'', ''test-access-key'')]" test_config]
        constructor_selects_provider [of "env_of []" test_config]
  by (simp add: env_of_def truthy_def)

text \<open>
  C6. With no MailerSend client, SendGrid disabled and no SES client, \<open>sendEmail\<close>
  completes without an exception for every recipient list, subject, body and
  unsubscribe URL: it logs the warning, prints the recipients, the subject and the body
  to the console, and calls no provider.
\<close>

theorem sendEmail_without_provider:
  "mailerSendClient this = None \<Longrightarrow> \<not> sendGridEnabled this \<Longrightarrow> sesClient this = None \<Longrightarrow>
   sendEmail P this to subject body unsubscribeUrl =
     ([LoggerWarn ''AWS SES and SendGrid not configured, email not sent.'',
       ConsoleLog ([CHR 0x0A, CHR 0x0A] @ ''To: '' @ join '', '' to),
       ConsoleLog (''Subject: '' @ subject),
       ConsoleLog (body @ [CHR 0x0A, CHR 0x0A])], Inr ())
   \<and> provider_calls (fst (sendEmail P this to subject body unsubscribeUrl)) = []"
  by (simp add: sendEmail_def provider_calls_def)

theorem sendEmail_without_provider_witness:
  "sendEmail rejecting (constructed (env_of []) test_config)
     [''a@example.com'', ''b@example.com''] ''Test Subject'' ''<p>Test Body</p>'' None =
     ([LoggerWarn ''AWS SES and SendGrid not configured, email not sent.'',
       ConsoleLog ([CHR 0x0A, CHR 0x0A] @ ''To: a@example.com, b@example.com''),
       ConsoleLog ''Subject: Test Subject'',
       ConsoleLog (''<p>Test Body</p>'' @ [CHR 0x0A, CHR 0x0A])], Inr ())"
proof -
  let ?svc = "constructed (env_of []) test_config"
  have "mailerSendClient ?svc = None" and "\<not> sendGridEnabled ?svc" and "sesClient ?svc = None"
    by (simp_all add: constructed_def EmailService_constructor_def env_of_def truthy_def)
  from sendEmail_without_provider [OF this, of rejecting
         "[''a@example.com'', ''b@example.com'']" "''Test Subject''" "''<p>Test Body</p>''" None]
  show ?thesis by simp
qed

section \<open>The Turnstile validator and the sign-up gate\<close>

text \<open>
  C3, as the code has it. Let \<open>v\<close> be the siteverify response as \<open>validateTurnstile\<close>
  hands it over. The validator returns
  \<open>{valid: false, reason: 'turnstile_failed', errors}\<close> exactly when \<open>success\<close> of \<open>v\<close>
  is false. With \<open>success\<close> true it returns \<open>action_mismatch\<close> when the expected
  action is truthy (neither null nor the empty string) and differs from the action of
  \<open>v\<close>; else \<open>hostname_mismatch\<close> when the expected hostname is truthy and differs
  from the hostname of \<open>v\<close>; otherwise \<open>{valid: true}\<close> with \<open>v\<close> as data and a number
  as token age. Every invalid result carries a reason.
\<close>

theorem validateTurnstileEnhanced_checks:
  assumes "v = snd (validateTurnstile pf this token remoteip)"
  shows
  "((reason (snd (validateTurnstileEnhanced pf this token remoteip ea eh))
       = Some ''turnstile_failed'') = (\<not> success v))
   \<and> (\<not> success v \<longrightarrow>
        snd (validateTurnstileEnhanced pf this token remoteip ea eh) =
          \<lparr>valid = False, reason = Some ''turnstile_failed'', errors = error_codes v,
           expected = None, received = None, data = None, tokenAge = None\<rparr>)
   \<and> (success v \<and> truthy ea \<and> action v \<noteq> ea \<longrightarrow>
        snd (validateTurnstileEnhanced pf this token remoteip ea eh) =
          \<lparr>valid = False, reason = Some ''action_mismatch'', errors = None,
           expected = ea, received = action v, data = None, tokenAge = None\<rparr>)
   \<and> (success v \<and> \<not> (truthy ea \<and> action v \<noteq> ea) \<and> truthy eh \<and> hostname v \<noteq> eh \<longrightarrow>
        snd (validateTurnstileEnhanced pf this token remoteip ea eh) =
          \<lparr>valid = False, reason = Some ''hostname_mismatch'', errors = None,
           expected = eh, received = hostname v, data = None, tokenAge = None\<rparr>)
   \<and> (success v \<and> \<not> (truthy ea \<and> action v \<noteq> ea) \<and> \<not> (truthy eh \<and> hostname v \<noteq> eh) \<longrightarrow>
        snd (validateTurnstileEnhanced pf this token remoteip ea eh) =
          \<lparr>valid = True, reason = None, errors = None, expected = None, received = None,
           data = Some v, tokenAge = Some (ageMinutes pf v)\<rparr>)
   \<and> (\<not> valid (snd (validateTurnstileEnhanced pf this token remoteip ea eh)) \<longrightarrow>
        reason (snd (validateTurnstileEnhanced pf this token remoteip ea eh)) \<noteq> None)"
  unfolding assms
  by (cases "validateTurnstile pf this token remoteip")
     (simp add: validateTurnstileEnhanced_def)

text \<open>
  The four outcomes at the inputs of the service's tests: a failed challenge, the
  action \<open>login\<close> where \<open>signup\<close> is expected, the hostname \<open>another.com\<close> where
  \<open>example.com\<close> is expected, and a challenge that matches both.
\<close>

theorem validateTurnstileEnhanced_checks_witness:
  "reason (snd (validateTurnstileEnhanced (answering failed_challenge 1700000600000)
             test_service ''token123'' (Some ''1.2.3.4'') (Some ''signup'')
             (Some ''example.com''))) = Some ''turnstile_failed''
   \<and> reason (snd (validateTurnstileEnhanced
             (answering (passed_challenge ''login'' ''example.com'') 1700000600000)
             test_service ''token123'' (Some ''1.2.3.4'') (Some ''signup'')
             (Some ''example.com''))) = Some ''action_mismatch''
   \<and> reason (snd (validateTurnstileEnhanced
             (answering (passed_challenge ''signup'' ''another.com'') 1700000600000)
             test_service ''token123'' (Some ''1.2.3.4'') (Some ''signup'')
             (Some ''example.com''))) = Some ''hostname_mismatch''
   \<and> valid (snd (validateTurnstileEnhanced
             (answering (passed_challenge ''signup'' ''example.com'') 1700000600000)
             test_service ''token123'' (Some ''1.2.3.4'') (Some ''signup'')
             (Some ''example.com'')))"
proof -
  have f: "v = snd (validateTurnstile (answering v t) test_service ''token123''
                      (Some ''1.2.3.4''))" for v t
    by (simp add: validateTurnstile_def answering_def)
  show ?thesis
    using validateTurnstileEnhanced_checks
            [OF f, of failed_challenge 1700000600000 "Some ''signup''" "Some ''example.com''"]
          validateTurnstileEnhanced_checks
            [OF f, of "passed_challenge ''login'' ''example.com''" 1700000600000
               "Some ''signup''" "Some ''example.com''"]
          validateTurnstileEnhanced_checks
            [OF f, of "passed_challenge ''signup'' ''another.com''" 1700000600000
               "Some ''signup''" "Some ''example.com''"]
          validateTurnstileEnhanced_checks
            [OF f, of "passed_challenge ''signup'' ''example.com''" 1700000600000
               "Some ''signup''" "Some ''example.com''"]
    by (simp add: failed_challenge_def passed_challenge_def truthy_def)
qed

text \<open>
  C3 as the specification states it fails for an expected action that is not null but
  empty: the source tests \<open>expectedAction && ...\<close>, the empty string is falsy, and a
  response whose action \<open>login\<close> differs from it is accepted, not answered with
  \<open>action_mismatch\<close>.
\<close>

theorem action_mismatch_nonnull_counterexample:
  "Some [] \<noteq> (None :: string option)
   \<and> success (passed_challenge ''login'' ''example.com'')
   \<and> action (passed_challenge ''login'' ''example.com'') \<noteq> Some []
   \<and> snd (validateTurnstileEnhanced
            (answering (passed_challenge ''login'' ''example.com'') 1700000600000)
            test_service ''token123'' (Some ''1.2.3.4'') (Some []) (Some ''example.com''))
     = \<lparr>valid = True, reason = None, errors = None, expected = None, received = None,
        data = Some (passed_challenge ''login'' ''example.com''),
        tokenAge = Some (Number 0)\<rparr>"
  by (simp add: validateTurnstileEnhanced_def validateTurnstile_def answering_def
        passed_challenge_def truthy_def ageMinutes_def)

text \<open>
  C4. When the request to the siteverify endpoint throws (\<open>fetch\<close> rejects, or the
  body does not parse), the validator logs the error and returns
  \<open>{valid: false, reason: 'turnstile_failed', errors: ['internal-error']}\<close>, whatever
  the expected action and hostname: a transport error is never a passed check.
\<close>

theorem validateTurnstileEnhanced_fails_closed:
  assumes "fetch pf (turnstile_form this token remoteip) = FetchRejects err
           \<or> fetch pf (turnstile_form this token remoteip) = JsonRejects err"
  shows "validateTurnstileEnhanced pf this token remoteip expectedAction expectedHostname =
           ([ConsoleError ''Turnstile validation error:'' err],
            \<lparr>valid = False, reason = Some ''turnstile_failed'',
             errors = Some [''internal-error''], expected = None, received = None,
             data = None, tokenAge = None\<rparr>)"
  using assms
  by (auto simp: validateTurnstileEnhanced_def validateTurnstile_def internal_error_def)

theorem validateTurnstileEnhanced_fails_closed_witness:
  "validateTurnstileEnhanced unreachable test_service ''token123'' (Some ''1.2.3.4'')
     (Some ''signup'') (Some ''example.com'') =
     ([ConsoleError ''Turnstile validation error:'' ''fetch failed''],
      \<lparr>valid = False, reason = Some ''turnstile_failed'',
       errors = Some [''internal-error''], expected = None, received = None,
       data = None, tokenAge = None\<rparr>)"
proof -
  have "fetch unreachable (turnstile_form test_service ''token123'' (Some ''1.2.3.4''))
          = FetchRejects ''fetch failed''
        \<or> fetch unreachable (turnstile_form test_service ''token123'' (Some ''1.2.3.4''))
          = JsonRejects ''fetch failed''"
    by (simp add: unreachable_def)
  from validateTurnstileEnhanced_fails_closed [OF this] show ?thesis .
qed

text \<open>
  C7. For a response with \<open>success\<close> true whose action and hostname pass the two
  checks, the validator returns \<open>valid = true\<close> for every clock value and every
  challenge timestamp; an age above four minutes adds one console warning and nothing
  else.
\<close>

theorem token_age_never_rejects:
  assumes "fetch pf (turnstile_form this token remoteip) = JsonResolves v"
    and "success v"
    and "\<not> (truthy expectedAction \<and> action v \<noteq> expectedAction)"
    and "\<not> (truthy expectedHostname \<and> hostname v \<noteq> expectedHostname)"
  shows "valid (snd (validateTurnstileEnhanced pf this token remoteip expectedAction
                       expectedHostname))
         \<and> fst (validateTurnstileEnhanced pf this token remoteip expectedAction
                   expectedHostname)
             = (if js_gt (ageMinutes pf v) 4 then [ConsoleWarnTokenAge (ageMinutes pf v)]
                else [])"
  using assms
  by (auto simp: validateTurnstileEnhanced_def validateTurnstile_def)

text \<open>A challenge solved ten minutes before the check: still valid, with the warning.\<close>

theorem token_age_never_rejects_witness:
  "valid (snd (validateTurnstileEnhanced
                 (answering (passed_challenge ''signup'' ''example.com'') 1700000000000)
                 test_service ''token123'' (Some ''1.2.3.4'') (Some ''signup'')
                 (Some ''example.com'')))
   \<and> fst (validateTurnstileEnhanced
            (answering (passed_challenge ''signup'' ''example.com'') 1700000000000)
            test_service ''token123'' (Some ''1.2.3.4'') (Some ''signup'')
            (Some ''example.com''))
       = [ConsoleWarnTokenAge (Number 10)]"
proof -
  let ?v = "passed_challenge ''signup'' ''example.com''"
  let ?pf = "answering ?v 1700000000000"
  have f: "fetch ?pf (turnstile_form test_service ''token123'' (Some ''1.2.3.4''))
             = JsonResolves ?v"
    by (simp add: answering_def)
  have s: "success ?v"
    by (simp add: passed_challenge_def)
  have a: "\<not> (truthy (Some ''signup'') \<and> action ?v \<noteq> Some ''signup'')"
    by (simp add: passed_challenge_def)
  have h: "\<not> (truthy (Some ''example.com'') \<and> hostname ?v \<noteq> Some ''example.com'')"
    by (simp add: passed_challenge_def)
  have age: "ageMinutes ?pf ?v = Number 10"
    by (simp add: ageMinutes_def answering_def passed_challenge_def)
  from token_age_never_rejects [OF f s a h] age show ?thesis
    by simp
qed



section \<open>The token service: one open record per family\<close>

subsection \<open>Counting the records a map leaves\<close>

lemma filter_map_length_le:
  "(\<And>x. x \<in> set xs \<Longrightarrow> P (f x) \<Longrightarrow> Q x) \<Longrightarrow>
   length (filter P (map f xs)) \<le> length (filter Q xs)"
  by (induction xs) auto

lemma filter_length_mono:
  "(\<And>x. x \<in> set xs \<Longrightarrow> P x \<Longrightarrow> Q x) \<Longrightarrow> length (filter P xs) \<le> length (filter Q xs)"
  using filter_map_length_le [of xs P "\<lambda>x. x" Q] by simp

lemma filter_length_strict:
  "x \<in> set xs \<Longrightarrow> P x \<Longrightarrow> \<not> Q x \<Longrightarrow>
   length (filter (\<lambda>y. P y \<and> Q y) xs) < length (filter P xs)"
proof (induction xs)
  case Nil
  then show ?case by simp
next
  case (Cons a xs)
  have le: "length (filter (\<lambda>y. P y \<and> Q y) xs) \<le> length (filter P xs)"
    by (rule filter_length_mono) simp
  show ?case
  proof (cases "x = a")
    case True
    with Cons.prems le show ?thesis by simp
  next
    case False
    with Cons have "length (filter (\<lambda>y. P y \<and> Q y) xs) < length (filter P xs)" by simp
    then show ?thesis by simp
  qed
qed

lemma lookup_Some:
  "lookup st tid = Some r \<Longrightarrow> r \<in> set (records st) \<and> token_id r = tid"
  by (auto simp: lookup_def find_Some_iff)

subsection \<open>Each operation keeps the store well formed\<close>

lemma well_formed_empty: "well_formed empty_store"
  by (simp add: well_formed_def families_known_def open_in_family_def empty_store_def)

lemma well_formed_issue:
  assumes "well_formed st"
  shows "well_formed (fst (issue cfg st t uid))"
proof -
  from assms have known: "\<forall>r\<in>set (records st). family_id r < next_family st"
    and one: "\<And>fam. length (open_in_family st fam) \<le> 1"
    by (auto simp: well_formed_def families_known_def list_all_iff)
  have fresh: "open_in_family st (next_family st) = []"
    using known by (fastforce simp: open_in_family_def filter_empty_conv)
  have "families_known (fst (issue cfg st t uid))"
    using known by (auto simp: families_known_def issue_def new_record_def list_all_iff less_Suc_eq)
  moreover have "length (open_in_family (fst (issue cfg st t uid)) fam) \<le> 1" for fam
  proof (cases "fam = next_family st")
    case True
    have "open_in_family (fst (issue cfg st t uid)) (next_family st)
            = open_in_family st (next_family st)
              @ [new_record cfg t (next_token st) uid (next_family st)]"
      by (simp add: open_in_family_def issue_def new_record_def open_record_def)
    with True fresh show ?thesis by simp
  next
    case False
    then have "open_in_family (fst (issue cfg st t uid)) fam = open_in_family st fam"
      by (simp add: open_in_family_def issue_def new_record_def)
    with one show ?thesis by simp
  qed
  ultimately show ?thesis by (simp add: well_formed_def)
qed

lemma well_formed_revoke_family:
  assumes "well_formed st"
  shows "well_formed (revoke_family st f)"
proof -
  have recs: "records (revoke_family st f)
                = map (\<lambda>r. if family_id r = f then r\<lparr>revoked := True\<rparr> else r) (records st)"
    by (simp add: revoke_family_def)
  have "length (open_in_family (revoke_family st f) fam) \<le> length (open_in_family st fam)" for fam
    unfolding open_in_family_def recs
    by (rule filter_map_length_le) (auto simp: open_record_def split: if_splits)
  moreover have "families_known (revoke_family st f)"
    using assms by (auto simp: well_formed_def families_known_def revoke_family_def list_all_iff)
  ultimately show ?thesis
    using assms by (auto simp: well_formed_def intro: order_trans)
qed

lemma well_formed_revoke_user:
  assumes "well_formed st"
  shows "well_formed (revoke_user st u)"
proof -
  have recs: "records (revoke_user st u)
                = map (\<lambda>r. if user_id r = u then r\<lparr>revoked := True\<rparr> else r) (records st)"
    by (simp add: revoke_user_def)
  have "length (open_in_family (revoke_user st u) fam) \<le> length (open_in_family st fam)" for fam
    unfolding open_in_family_def recs
    by (rule filter_map_length_le) (auto simp: open_record_def split: if_splits)
  moreover have "families_known (revoke_user st u)"
    using assms by (auto simp: well_formed_def families_known_def revoke_user_def list_all_iff)
  ultimately show ?thesis
    using assms by (auto simp: well_formed_def intro: order_trans)
qed

lemma well_formed_revoke: "well_formed st \<Longrightarrow> well_formed (revoke st target)"
  by (cases target) (simp_all add: well_formed_revoke_user well_formed_revoke_family)

lemma well_formed_supersede_and_create:
  assumes wf: "well_formed st"
    and r: "r \<in> set (records st)" "open_record r"
  shows "well_formed (supersede_and_create cfg st t r)"
proof -
  let ?f = "\<lambda>x. if token_id x = token_id r then x\<lparr>superseded_by := Some (next_token st)\<rparr> else x"
  let ?new = "new_record cfg t (next_token st) (user_id r) (family_id r)"
  from wf have known: "\<And>x. x \<in> set (records st) \<Longrightarrow> family_id x < next_family st"
    and one: "\<And>fam. length (open_in_family st fam) \<le> 1"
    by (auto simp: well_formed_def families_known_def list_all_iff)
  have recs: "records (supersede_and_create cfg st t r) = map ?f (records st) @ [?new]"
    by (simp add: supersede_and_create_def)
  have "families_known (supersede_and_create cfg st t r)"
    using known r(1)
    by (auto simp: families_known_def supersede_and_create_def new_record_def list_all_iff)
  moreover have "length (open_in_family (supersede_and_create cfg st t r) fam) \<le> 1" for fam
  proof -
    define n where "n = length (filter (\<lambda>x. family_id x = fam \<and> open_record x)
                                  (map ?f (records st)))"
    have total: "length (open_in_family (supersede_and_create cfg st t r) fam)
                   = n + (if family_id r = fam then 1 else 0)"
      unfolding open_in_family_def recs n_def
      by (simp add: new_record_def open_record_def del: filter_map)
    show ?thesis
    proof (cases "fam = family_id r")
      case True
      have "n \<le> length (filter (\<lambda>x. (family_id x = fam \<and> open_record x)
                                      \<and> token_id x \<noteq> token_id r) (records st))"
        unfolding n_def
        by (rule filter_map_length_le) (auto simp: open_record_def split: if_splits)
      also have "\<dots> < length (filter (\<lambda>x. family_id x = fam \<and> open_record x) (records st))"
        using r True by (intro filter_length_strict [of r]) auto
      also have "\<dots> \<le> 1"
        using one [of fam] by (simp add: open_in_family_def)
      finally have "n = 0" by simp
      with total show ?thesis by simp
    next
      case False
      have "n \<le> length (filter (\<lambda>x. family_id x = fam \<and> open_record x) (records st))"
        unfolding n_def
        by (rule filter_map_length_le) (auto simp: open_record_def split: if_splits)
      with one [of fam] have "n \<le> 1"
        by (simp add: open_in_family_def)
      with total False show ?thesis by simp
    qed
  qed
  ultimately show ?thesis by (simp add: well_formed_def)
qed

lemma well_formed_refresh:
  assumes "well_formed st"
  shows "well_formed (fst (refresh cfg st t tid))"
proof (cases "lookup st tid")
  case None
  with assms show ?thesis by (simp add: refresh_def)
next
  case (Some r)
  then have "r \<in> set (records st)" by (simp add: lookup_Some)
  with assms Some show ?thesis
    by (auto simp: refresh_def open_record_def
          intro: well_formed_revoke_family well_formed_supersede_and_create)
qed

lemma well_formed_exec: "well_formed st \<Longrightarrow> well_formed (exec cfg st op)"
  by (cases op) (simp_all add: well_formed_issue well_formed_refresh well_formed_revoke)

lemma well_formed_run: "well_formed st \<Longrightarrow> well_formed (run cfg st ops)"
  unfolding run_def by (induction ops arbitrary: st) (simp_all add: well_formed_exec)

lemma live_le_open:
  "length (live_in_family st t fam) \<le> length (open_in_family st fam)"
  unfolding live_in_family_def open_in_family_def
  by (rule filter_length_mono) (simp add: live_def open_record_def)

text \<open>
  C9. In every store reached from the empty store by \<open>issue\<close>, \<open>refresh\<close> and \<open>revoke\<close>
  calls, at any times, each refresh-token family has at most one live record, whatever
  the time at which liveness is judged. \<open>issue\<close> on such a store creates a family
  that is new, and whose live records are the one new record until it expires.
\<close>

theorem one_live_record_per_family:
  "length (live_in_family (run cfg empty_store ops) t fam) \<le> 1
   \<and> live_in_family (fst (issue cfg (run cfg empty_store ops) t0 uid)) t
        (next_family (run cfg empty_store ops))
       = (if t < t0 + refresh_ttl cfg
          then [new_record cfg t0 (next_token (run cfg empty_store ops)) uid
                  (next_family (run cfg empty_store ops))]
          else [])"
proof -
  let ?st = "run cfg empty_store ops"
  have wf: "well_formed ?st"
    by (rule well_formed_run) (rule well_formed_empty)
  then have "length (open_in_family ?st fam) \<le> 1"
    by (simp add: well_formed_def)
  with live_le_open [of ?st t fam] have one: "length (live_in_family ?st t fam) \<le> 1"
    by simp
  from wf have "\<forall>r\<in>set (records ?st). family_id r < next_family ?st"
    by (simp add: well_formed_def families_known_def list_all_iff)
  then have "filter (\<lambda>r. family_id r = next_family ?st \<and> live t r) (records ?st) = []"
    by (fastforce simp: filter_empty_conv)
  then have "live_in_family (fst (issue cfg ?st t0 uid)) t (next_family ?st)
               = (if t < t0 + refresh_ttl cfg
                  then [new_record cfg t0 (next_token ?st) uid (next_family ?st)] else [])"
    by (simp add: live_in_family_def issue_def live_def expired_def new_record_def
          not_le)
  with one show ?thesis by simp
qed

text \<open>After a login and one rotation the family has one live record, token 1.\<close>

theorem one_live_record_per_family_witness:
  "length (live_in_family (run short_lived empty_store rotated_once) 6 0) \<le> 1
   \<and> map token_id (live_in_family (run short_lived empty_store rotated_once) 6 0) = [1]"
proof -
  have "map token_id (live_in_family (run short_lived empty_store rotated_once) 6 0) = [1]"
    by (simp add: live_in_family_def run_def rotated_once_def short_lived_def empty_store_def
          issue_def refresh_def lookup_def new_record_def supersede_and_create_def
          live_def expired_def)
  with one_live_record_per_family [of short_lived rotated_once 6 0] show ?thesis
    by simp
qed

section \<open>The ownership policy: defaults\<close>

text \<open>
  C10. A capability with no override installed is owner-only: \<open>canView\<close>, \<open>canEdit\<close>
  and \<open>canDelete\<close> hold for a viewer exactly when the viewer's id is the id of the
  resource's owner, and do not hold when the viewer is missing.
\<close>

theorem default_capabilities_owner_only:
  "(canView_override policy = None \<longrightarrow>
      canView policy resource (Some v) = (viewer_id v = owner resource)
      \<and> \<not> canView policy resource None)
   \<and> (canEdit_override policy = None \<longrightarrow>
      canEdit policy resource (Some v) = (viewer_id v = owner resource)
      \<and> \<not> canEdit policy resource None)
   \<and> (canDelete_override policy = None \<longrightarrow>
      canDelete policy resource (Some v) = (viewer_id v = owner resource)
      \<and> \<not> canDelete policy resource None)"
  by (simp add: canView_def canEdit_def canDelete_def owner_only_def)

text \<open>The owner 7 of a resource, and the viewer 8, under the policy without overrides.\<close>

theorem default_capabilities_owner_only_witness:
  "canView no_override \<lparr>resource_id = 1, owner = 7\<rparr> (Some \<lparr>viewer_id = 7\<rparr>)
   \<and> canEdit no_override \<lparr>resource_id = 1, owner = 7\<rparr> (Some \<lparr>viewer_id = 7\<rparr>)
   \<and> canDelete no_override \<lparr>resource_id = 1, owner = 7\<rparr> (Some \<lparr>viewer_id = 7\<rparr>)
   \<and> \<not> canView no_override \<lparr>resource_id = 1, owner = 7\<rparr> (Some \<lparr>viewer_id = 8\<rparr>)
   \<and> \<not> canEdit no_override \<lparr>resource_id = 1, owner = 7\<rparr> (Some \<lparr>viewer_id = 8\<rparr>)
   \<and> \<not> canDelete no_override \<lparr>resource_id = 1, owner = 7\<rparr> (Some \<lparr>viewer_id = 8\<rparr>)
   \<and> \<not> canView no_override \<lparr>resource_id = 1, owner = 7\<rparr> None"
  using default_capabilities_owner_only
          [of no_override "\<lparr>resource_id = 1, owner = 7\<rparr>" "\<lparr>viewer_id = 7\<rparr>"]
        default_capabilities_owner_only
          [of no_override "\<lparr>resource_id = 1, owner = 7\<rparr>" "\<lparr>viewer_id = 8\<rparr>"]
  by (simp add: no_override_def)

end
